theory Spec2Isabelle
  imports Main
begin

section \<open>Data model (types.ts)\<close>

text \<open>
  The string-literal unions of \<^verbatim>\<open>types.ts\<close> are datatypes, the interfaces are
  records. Record fields live in one name space, so the fields of \<^verbatim>\<open>HistoryItem\<close>
  that share a name with a state variable of \<^verbatim>\<open>App\<close> (or with a HOL constant) carry the
  prefix \<open>item_\<close>; \<^verbatim>\<open>VocabularyItem.definition\<close> is \<open>meaning\<close>, since
  \<^verbatim>\<open>definition\<close> is a keyword. An optional or nullable string is a \<open>string option\<close>
  (\<^verbatim>\<open>undefined\<close> and \<^verbatim>\<open>null\<close> are both \<open>None\<close>; the code never tells them apart).
\<close>

datatype ActiveTab = ANALYZE | VOCABULARY | HISTORY | PROFILE

datatype Status = IDLE | LOADING | SUCCESS | ERROR

datatype Subject = MATH | PHYSICS | CHEMISTRY | BIOLOGY | ENGLISH

record PracticeQuestion =
  question :: string
  answer :: string
  explanation :: string

record AnalysisResponse =
  mistakeDiagnosis :: string
  coreConcept :: string
  stepByStepSolution :: "string list"
  practiceQuestion :: PracticeQuestion

text \<open>
  A value of \<^verbatim>\<open>JSON.parse\<close> (numbers are needed here as integer literals only), and
  the value of a cast \<^verbatim>\<open>JSON.parse(text) as T\<close>. TypeScript does not check the cast: at
  run time the value either has the shape of \<^verbatim>\<open>T\<close> (\<open>Shaped\<close>), or it is some other
  JSON value (\<open>Unshaped\<close>: \<^verbatim>\<open>null\<close>, an object with fields missing, a number, ...)
  that the code goes on to use as a \<^verbatim>\<open>T\<close>. The state holds such a value as it holds any
  other. Rendering is not part of the model: a component that reads a field of a missing
  part of such a value throws when it is rendered.
\<close>

datatype json =
    JNull
  | JBool bool
  | JNumber int
  | JString string
  | JArray "json list"
  | JObject "(string \<times> json) list"

datatype 'a unvalidated = Shaped 'a | Unshaped json

record HistoryItem =
  item_id :: string
  item_timestamp :: int
  item_subject :: Subject
  originalProblem :: string
  originalImage :: "string option"
  item_result :: "AnalysisResponse unvalidated"

record VocabularyItem =
  word :: string
  pronunciation :: string
  meaning :: string
  example :: string

record VocabularyResponse =
  topic :: string
  words :: "VocabularyItem list"

text \<open>A thrown JavaScript value. The handlers catch everything and never inspect it.\<close>

datatype error = Error string | SyntaxError | ApiError string | StorageError

section \<open>JavaScript primitives used by the code\<close>

text \<open>Truthiness of a string (\<^verbatim>\<open>!s\<close> is true exactly for the empty string) and of a
  \<^verbatim>\<open>string | null\<close>.\<close>

definition truthy :: "string \<Rightarrow> bool" where
  "truthy s = (case s of [] \<Rightarrow> False | _ # _ \<Rightarrow> True)"

definition truthy_opt :: "string option \<Rightarrow> bool" where
  "truthy_opt x = (case x of None \<Rightarrow> False | Some s \<Rightarrow> truthy s)"

text \<open>
  \<^verbatim>\<open>Date.now().toString()\<close>: the decimal numeral of an integer, with a minus sign for a
  negative one. (A clock reading is an integer number of milliseconds, far below
  \<open>10\<^sup>2\<^sup>1\<close>, where JavaScript would switch to exponent notation.)
\<close>

definition digit_char :: "nat \<Rightarrow> char" where
  "digit_char d = ''0123456789'' ! d"

function digits :: "nat \<Rightarrow> string" where
  "digits n = (if n < 10 then [digit_char n] else digits (n div 10) @ [digit_char (n mod 10)])"
  by pat_completeness auto
termination
  by (relation "measure (\<lambda>n. n)") auto

definition toString :: "int \<Rightarrow> string" where
  "toString n = (if n < 0 then CHR ''-'' # digits (nat (- n)) else digits (nat n))"

section \<open>Application state (App.tsx)\<close>

text \<open>
  The closure of one \<^verbatim>\<open>handleSubmit\<close> call that is suspended at
  \<^verbatim>\<open>await analyzeProblem(...)\<close>: the values of \<^verbatim>\<open>inputText\<close>, \<^verbatim>\<open>subject\<close> and
  \<^verbatim>\<open>selectedImage\<close> it captured.
\<close>

record AnalysisCall =
  call_text :: string
  call_subject :: Subject
  call_image :: "string option"

text \<open>
  The \<^verbatim>\<open>useState\<close> variables of \<^verbatim>\<open>App\<close>, followed by the three pieces of the
  environment the handlers act on: the \<^verbatim>\<open>localStorage\<close> slot
  \<^verbatim>\<open>'study-app-history'\<close> (\<open>None\<close> when the key is absent), and the calls of
  \<^verbatim>\<open>handleSubmit\<close> and \<^verbatim>\<open>handleVocabSubmit\<close> that are waiting for the collaborator
  (the latter identified by the topic they sent). A JavaScript \<^verbatim>\<open>Set<number>\<close> of card
  indices is a set of naturals; it is always finite. The state variable \<^verbatim>\<open>result\<close> is
  \<open>None\<close> when it holds \<^verbatim>\<open>null\<close>; \<open>asState\<close> is the value it holds after
  \<^verbatim>\<open>setResult(v)\<close>, where \<open>v\<close> can be the \<^verbatim>\<open>null\<close> that \<^verbatim>\<open>JSON.parse\<close> returned.
  The state variable \<^verbatim>\<open>history\<close> is a list of records here: \<open>mount\<close> below says what
  the code loads when the stored text is something else.
\<close>

record app =
  activeTab :: ActiveTab
  subject :: Subject
  inputText :: string
  selectedImage :: "string option"
  status :: Status
  result :: "AnalysisResponse unvalidated option"
  errorMsg :: "string option"
  vocabTopic :: string
  vocabStatus :: Status
  vocabResult :: "VocabularyResponse option"
  revealedWords :: "nat set"
  history :: "HistoryItem list"
  storedHistory :: "string option"
  analysisCalls :: "AnalysisCall list"
  vocabCalls :: "string list"

definition asState :: "'a unvalidated \<Rightarrow> 'a unvalidated option" where
  "asState v = (case v of Unshaped JNull \<Rightarrow> None | _ \<Rightarrow> Some v)"

section \<open>The history store\<close>

text \<open>
  The initializer of the \<^verbatim>\<open>history\<close> state (\<^verbatim>\<open>load\<close>). \<^verbatim>\<open>JSON.parse\<close> is a
  built-in, so it is a parameter: it throws, or returns a value that the code takes as
  a \<^verbatim>\<open>HistoryItem[]\<close> without a check. \<open>got\<close> is what \<^verbatim>\<open>localStorage.getItem\<close> did: it
  threw, or returned \<^verbatim>\<open>null\<close> or a string. The \<^verbatim>\<open>catch\<close> covers both calls.
\<close>

definition loadHistory ::
  "(string \<Rightarrow> error + HistoryItem list unvalidated) \<Rightarrow> error + string option \<Rightarrow>
   HistoryItem list unvalidated" where
  "loadHistory JSON_parse got =
     (case got of
        Inl e \<Rightarrow> Shaped []
      | Inr None \<Rightarrow> Shaped []
      | Inr (Some saved) \<Rightarrow>
          (if truthy saved
           then (case JSON_parse saved of Inl e \<Rightarrow> Shaped [] | Inr parsed \<Rightarrow> parsed)
           else Shaped []))"

text \<open>
  The persistence effect (\<^verbatim>\<open>useEffect(..., [history])\<close>): \<^verbatim>\<open>JSON.stringify\<close> is a
  parameter, \<open>written\<close> tells whether \<^verbatim>\<open>localStorage.setItem\<close> returned (\<open>True\<close>) or
  threw, which the \<^verbatim>\<open>catch\<close> swallows.
\<close>

definition saveHistoryEffect :: "(HistoryItem list \<Rightarrow> string) \<Rightarrow> bool \<Rightarrow> app \<Rightarrow> app" where
  "saveHistoryEffect JSON_stringify written s =
     (if written then s\<lparr>storedHistory := Some (JSON_stringify (history s))\<rparr> else s)"

text \<open>The state of a freshly mounted \<^verbatim>\<open>App\<close>, before its first effect runs.\<close>

definition initialState :: "HistoryItem list \<Rightarrow> string option \<Rightarrow> app" where
  "initialState items slot =
     \<lparr>activeTab = ANALYZE, subject = MATH, inputText = [], selectedImage = None,
      status = IDLE, result = None, errorMsg = None,
      vocabTopic = [], vocabStatus = IDLE, vocabResult = None, revealedWords = {},
      history = items, storedHistory = slot, analysisCalls = [], vocabCalls = []\<rparr>"

text \<open>The application mounted with a list of records as its history: the effect runs once
  after the first render.\<close>

definition mountWith ::
  "(HistoryItem list \<Rightarrow> string) \<Rightarrow> bool \<Rightarrow> HistoryItem list \<Rightarrow> string option \<Rightarrow> app" where
  "mountWith JSON_stringify written items slot =
     saveHistoryEffect JSON_stringify written (initialState items slot)"

text \<open>
  Mounting: \<open>slot\<close> is the content of the storage slot and \<open>readable\<close> tells whether
  \<^verbatim>\<open>getItem\<close> returned it or threw. When what is loaded is a list of records the
  application runs on it. When the stored text parses to anything else, the code mounts
  all the same, with that value as its \<^verbatim>\<open>history\<close>: it is not replaced by the empty
  list, and the spread in the next append and the rendering of the history tab are then
  applied to a value that is not a list of records. The result \<open>Unshaped v\<close> stands for an
  application in that condition; its further steps are not modelled.
\<close>

definition mount ::
  "(HistoryItem list \<Rightarrow> string) \<Rightarrow> (string \<Rightarrow> error + HistoryItem list unvalidated) \<Rightarrow>
   bool \<Rightarrow> string option \<Rightarrow> bool \<Rightarrow> app unvalidated" where
  "mount JSON_stringify JSON_parse readable slot written =
     (case loadHistory JSON_parse (if readable then Inr slot else Inl StorageError) of
        Shaped items \<Rightarrow> Shaped (mountWith JSON_stringify written items slot)
      | Unshaped v \<Rightarrow> Unshaped v)"

text \<open>\<^verbatim>\<open>deleteHistoryItem\<close> and \<^verbatim>\<open>clearHistory\<close>; \<open>confirmed\<close> is the answer to
  \<^verbatim>\<open>window.confirm\<close>.\<close>

definition deleteHistoryItem :: "bool \<Rightarrow> string \<Rightarrow> app \<Rightarrow> app" where
  "deleteHistoryItem confirmed ident s =
     (if confirmed
      then s\<lparr>history := filter (\<lambda>item. item_id item \<noteq> ident) (history s)\<rparr>
      else s)"

definition clearHistory :: "bool \<Rightarrow> app \<Rightarrow> app" where
  "clearHistory confirmed s = (if confirmed then s\<lparr>history := []\<rparr> else s)"

definition loadHistoryItem :: "HistoryItem \<Rightarrow> app \<Rightarrow> app" where
  "loadHistoryItem item s =
     s\<lparr>subject := item_subject item,
       inputText := originalProblem item,
       selectedImage := (if truthy_opt (originalImage item) then originalImage item else None),
       result := asState (item_result item),
       status := SUCCESS,
       activeTab := ANALYZE\<rparr>"

section \<open>The analysis session\<close>

text \<open>
  \<^verbatim>\<open>analyzeProblem\<close> (services/gemini.ts), from the collaborator's reply to what the
  promise settles with: \<open>reply\<close> is \<open>Inl e\<close> when \<^verbatim>\<open>generateContent\<close> rejected, and
  otherwise \<^verbatim>\<open>response.text\<close>, which may be undefined. \<^verbatim>\<open>JSON.parse\<close> is a parameter:
  it throws, or returns a value that is cast to \<^verbatim>\<open>AnalysisResponse\<close> without a check, so
  a response that parses is returned whatever its shape.
\<close>

definition analyzeProblem ::
  "(string \<Rightarrow> error + AnalysisResponse unvalidated) \<Rightarrow> error + string option \<Rightarrow>
   error + AnalysisResponse unvalidated" where
  "analyzeProblem JSON_parse reply =
     (case reply of
        Inl e \<Rightarrow> Inl e
      | Inr None \<Rightarrow> Inl (Error ''No response from AI'')
      | Inr (Some text) \<Rightarrow>
          (if truthy text then JSON_parse text else Inl (Error ''No response from AI'')))"

text \<open>The message of the \<^verbatim>\<open>catch\<close> branch, in translation (the source's is Chinese).\<close>

definition failureMessage :: string where
  "failureMessage =
     ''Analysis failed, please retry later. The network may be unstable or the image too large.''"

text \<open>
  \<^verbatim>\<open>handleSubmit\<close> up to its \<^verbatim>\<open>await\<close>: \<open>None\<close> when the guard returns, otherwise the
  state after the three setters and the closure that waits for the collaborator.
\<close>

definition handleSubmit_start :: "app \<Rightarrow> (app \<times> AnalysisCall) option" where
  "handleSubmit_start s =
     (if \<not> truthy (inputText s) \<and> \<not> truthy_opt (selectedImage s) then None
      else Some (s\<lparr>status := LOADING, result := None, errorMsg := None\<rparr>,
                 \<lparr>call_text = inputText s, call_subject = subject s,
                  call_image = selectedImage s\<rparr>))"

text \<open>The record built on success; \<open>t1\<close> and \<open>t2\<close> are the two readings of
  \<^verbatim>\<open>Date.now()\<close>.\<close>

definition newItem ::
  "AnalysisCall \<Rightarrow> AnalysisResponse unvalidated \<Rightarrow> int \<Rightarrow> int \<Rightarrow> HistoryItem" where
  "newItem c data t1 t2 =
     \<lparr>item_id = toString t1, item_timestamp = t2, item_subject = call_subject c,
      originalProblem = call_text c, originalImage = call_image c, item_result = data\<rparr>"

text \<open>\<^verbatim>\<open>handleSubmit\<close> after the \<^verbatim>\<open>await\<close>, run on the state of that moment: the rest of
  the \<^verbatim>\<open>try\<close> block when the promise fulfilled, the \<^verbatim>\<open>catch\<close> block when it rejected.\<close>

definition handleSubmit_settle ::
  "AnalysisCall \<Rightarrow> error + AnalysisResponse unvalidated \<Rightarrow> int \<Rightarrow> int \<Rightarrow> app \<Rightarrow> app" where
  "handleSubmit_settle c outcome t1 t2 s =
     (case outcome of
        Inr data \<Rightarrow>
          s\<lparr>result := asState data, status := SUCCESS,
            history := newItem c data t1 t2 # history s\<rparr>
      | Inl e \<Rightarrow> s\<lparr>status := ERROR, errorMsg := Some failureMessage\<rparr>)"

text \<open>A whole run of \<^verbatim>\<open>handleSubmit\<close> with nothing happening during the \<^verbatim>\<open>await\<close>.\<close>

definition handleSubmit ::
  "(string \<Rightarrow> error + AnalysisResponse unvalidated) \<Rightarrow> error + string option \<Rightarrow>
   int \<Rightarrow> int \<Rightarrow> app \<Rightarrow> app" where
  "handleSubmit JSON_parse reply t1 t2 s =
     (case handleSubmit_start s of
        None \<Rightarrow> s
      | Some (s1, c) \<Rightarrow> handleSubmit_settle c (analyzeProblem JSON_parse reply) t1 t2 s1)"

section \<open>The vocabulary session\<close>

text \<open>\<^verbatim>\<open>generateVocabulary\<close> has the form of \<^verbatim>\<open>analyzeProblem\<close>. Its parser is taken at the
  declared type of the response: what follows about this session concerns the ways a
  request is started and the reveal-set of a response of that shape.\<close>

definition generateVocabulary ::
  "(string \<Rightarrow> error + VocabularyResponse) \<Rightarrow> error + string option \<Rightarrow> error + VocabularyResponse" where
  "generateVocabulary JSON_parse reply =
     (case reply of
        Inl e \<Rightarrow> Inl e
      | Inr None \<Rightarrow> Inl (Error ''No response from AI'')
      | Inr (Some text) \<Rightarrow>
          (if truthy text then JSON_parse text else Inl (Error ''No response from AI'')))"

definition handleVocabSubmit_start :: "app \<Rightarrow> (app \<times> string) option" where
  "handleVocabSubmit_start s =
     (if \<not> truthy (vocabTopic s) then None
      else Some (s\<lparr>vocabStatus := LOADING, vocabResult := None, revealedWords := {}\<rparr>,
                 vocabTopic s))"

definition handleVocabSubmit_settle :: "error + VocabularyResponse \<Rightarrow> app \<Rightarrow> app" where
  "handleVocabSubmit_settle outcome s =
     (case outcome of
        Inr data \<Rightarrow> s\<lparr>vocabResult := Some data, vocabStatus := SUCCESS\<rparr>
      | Inl e \<Rightarrow> s\<lparr>vocabStatus := ERROR\<rparr>)"

definition toggleWordReveal :: "nat \<Rightarrow> app \<Rightarrow> app" where
  "toggleWordReveal index s =
     (if index \<in> revealedWords s
      then s\<lparr>revealedWords := revealedWords s - {index}\<rparr>
      else s\<lparr>revealedWords := insert index (revealedWords s)\<rparr>)"

definition toggleAllWords :: "app \<Rightarrow> app" where
  "toggleAllWords s =
     (case vocabResult s of
        None \<Rightarrow> s
      | Some v \<Rightarrow>
          (if card (revealedWords s) = length (words v)
           then s\<lparr>revealedWords := {}\<rparr>
           else s\<lparr>revealedWords := {0 ..< length (words v)}\<rparr>))"

section \<open>The rendered controls and the events they deliver\<close>

text \<open>
  What the JSX of \<^verbatim>\<open>App\<close> wires to the handlers. A control delivers its event only
  while it is rendered (most are rendered under one tab only) and, for a button, while it
  is not disabled. The two \<^verbatim>\<open>disabled\<close> expressions:
\<close>

definition submitDisabled :: "app \<Rightarrow> bool" where
  "submitDisabled s =
     (status s = LOADING \<or> (\<not> truthy (inputText s) \<and> \<not> truthy_opt (selectedImage s)))"

definition vocabSubmitDisabled :: "app \<Rightarrow> bool" where
  "vocabSubmitDisabled s = (vocabStatus s = LOADING \<or> \<not> truthy (vocabTopic s))"

text \<open>
  An event is a user action on a control, the end of a file read, or the settling of a
  waiting collaborator call (the \<open>k\<close>-th one, with its outcome and, for an analysis, the
  two clock readings). An event whose handler calls \<^verbatim>\<open>setHistory\<close> carries, last,
  whether the storage write of the effect that follows succeeded; \<^verbatim>\<open>DeleteClick\<close> and
  \<^verbatim>\<open>ClearClick\<close> carry the answer to the confirmation dialog before it.
\<close>

datatype event =
    TabClick ActiveTab
  | SubjectClick Subject
  | InputChange string
  | ImageLoaded "string option"
  | RemoveImageClick
  | SubmitClick
  | AnalysisSettled nat "error + AnalysisResponse unvalidated" int int bool
  | TopicChange string
  | VocabSubmitClick
  | TopicKeyDown string
  | VocabSettled nat "error + VocabularyResponse"
  | CardClick nat
  | ToggleAllClick
  | HistoryItemClick nat
  | DeleteClick nat bool bool
  | ClearClick bool bool

definition dropAt :: "nat \<Rightarrow> 'a list \<Rightarrow> 'a list" where
  "dropAt k xs = take k xs @ drop (Suc k) xs"

text \<open>Calling \<^verbatim>\<open>handleSubmit\<close> or \<^verbatim>\<open>handleVocabSubmit\<close>: the synchronous part runs and,
  unless the guard returned, one more call waits for the collaborator.\<close>

definition callHandleSubmit :: "app \<Rightarrow> app" where
  "callHandleSubmit s =
     (case handleSubmit_start s of
        None \<Rightarrow> s
      | Some (s1, c) \<Rightarrow> s1\<lparr>analysisCalls := analysisCalls s1 @ [c]\<rparr>)"

definition callHandleVocabSubmit :: "app \<Rightarrow> app" where
  "callHandleVocabSubmit s =
     (case handleVocabSubmit_start s of
        None \<Rightarrow> s
      | Some (s1, t) \<Rightarrow> s1\<lparr>vocabCalls := vocabCalls s1 @ [t]\<rparr>)"

text \<open>
  One event. React renders after the handler's updates and runs the persistence effect
  after a render in which \<^verbatim>\<open>history\<close> is a new array, before it renders anything
  later; so the effect is part of the step of an event that called \<^verbatim>\<open>setHistory\<close>.
\<close>

fun dispatch :: "(HistoryItem list \<Rightarrow> string) \<Rightarrow> event \<Rightarrow> app \<Rightarrow> app" where
  "dispatch js (TabClick t) s =
     (if t = PROFILE then s else s\<lparr>activeTab := t\<rparr>)"
| "dispatch js (SubjectClick subj) s =
     (if activeTab s = ANALYZE then s\<lparr>subject := subj\<rparr> else s)"
| "dispatch js (InputChange v) s =
     (if activeTab s = ANALYZE then s\<lparr>inputText := v\<rparr> else s)"
| "dispatch js (ImageLoaded r) s = s\<lparr>selectedImage := r\<rparr>"
| "dispatch js RemoveImageClick s =
     (if activeTab s = ANALYZE \<and> truthy_opt (selectedImage s)
      then s\<lparr>selectedImage := None\<rparr> else s)"
| "dispatch js SubmitClick s =
     (if activeTab s = ANALYZE \<and> \<not> submitDisabled s then callHandleSubmit s else s)"
| "dispatch js (AnalysisSettled k outcome t1 t2 written) s =
     (if k < length (analysisCalls s)
      then (let s1 = handleSubmit_settle (analysisCalls s ! k) outcome t1 t2
                       (s\<lparr>analysisCalls := dropAt k (analysisCalls s)\<rparr>)
            in case outcome of
                 Inr data \<Rightarrow> saveHistoryEffect js written s1
               | Inl e \<Rightarrow> s1)
      else s)"
| "dispatch js (TopicChange v) s =
     (if activeTab s = VOCABULARY then s\<lparr>vocabTopic := v\<rparr> else s)"
| "dispatch js VocabSubmitClick s =
     (if activeTab s = VOCABULARY \<and> \<not> vocabSubmitDisabled s
      then callHandleVocabSubmit s else s)"
| "dispatch js (TopicKeyDown key) s =
     (if activeTab s = VOCABULARY \<and> key = ''Enter'' then callHandleVocabSubmit s else s)"
| "dispatch js (VocabSettled k outcome) s =
     (if k < length (vocabCalls s)
      then handleVocabSubmit_settle outcome (s\<lparr>vocabCalls := dropAt k (vocabCalls s)\<rparr>)
      else s)"
| "dispatch js (CardClick idx) s =
     (case vocabResult s of
        None \<Rightarrow> s
      | Some v \<Rightarrow>
          (if activeTab s = VOCABULARY \<and> idx < length (words v)
           then toggleWordReveal idx s else s))"
| "dispatch js ToggleAllClick s =
     (case vocabResult s of
        None \<Rightarrow> s
      | Some v \<Rightarrow> (if activeTab s = VOCABULARY then toggleAllWords s else s))"
| "dispatch js (HistoryItemClick k) s =
     (if activeTab s = HISTORY \<and> k < length (history s)
      then loadHistoryItem (history s ! k) s else s)"
| "dispatch js (DeleteClick k confirmed written) s =
     (if activeTab s = HISTORY \<and> k < length (history s)
      then (if confirmed
            then saveHistoryEffect js written
                   (deleteHistoryItem confirmed (item_id (history s ! k)) s)
            else s)
      else s)"
| "dispatch js (ClearClick confirmed written) s =
     (if activeTab s = HISTORY \<and> 0 < length (history s)
      then (if confirmed then saveHistoryEffect js written (clearHistory confirmed s) else s)
      else s)"

text \<open>A run of the application: the events in the order they are handled.\<close>

fun run :: "(HistoryItem list \<Rightarrow> string) \<Rightarrow> event list \<Rightarrow> app \<Rightarrow> app" where
  "run js [] s = s"
| "run js (e # es) s = run js es (dispatch js e s)"

text \<open>A sequence of successful completions, each with its closure, its result and its two
  clock readings: what the History Manager sees as a sequence of \<^verbatim>\<open>append\<close> calls.\<close>

fun appendAll ::
  "(AnalysisCall \<times> AnalysisResponse unvalidated \<times> int \<times> int) list \<Rightarrow> app \<Rightarrow> app" where
  "appendAll [] s = s"
| "appendAll ((c, data, t1, t2) # rest) s =
     appendAll rest (handleSubmit_settle c (Inr data) t1 t2 s)"

text \<open>The record an element of such a sequence creates.\<close>

fun created :: "AnalysisCall \<times> AnalysisResponse unvalidated \<times> int \<times> int \<Rightarrow> HistoryItem" where
  "created (c, data, t1, t2) = newItem c data t1 t2"

section \<open>The specification's wording of \<^verbatim>\<open>remove\<close>, and the readings of a sequence\<close>

text \<open>The History Manager's \<^verbatim>\<open>remove(id)\<close> as the specification words it: delete the
  first record whose identifier matches, do nothing when there is none.\<close>

fun removeFirst_spec :: "string \<Rightarrow> HistoryItem list \<Rightarrow> HistoryItem list" where
  "removeFirst_spec ident [] = []"
| "removeFirst_spec ident (x # xs) =
     (if item_id x = ident then xs else x # removeFirst_spec ident xs)"

text \<open>The clock reading a completion turns into the identifier of its record.\<close>

fun idReading :: "AnalysisCall \<times> AnalysisResponse unvalidated \<times> int \<times> int \<Rightarrow> int" where
  "idReading (c, data, t1, t2) = t1"

text \<open>The reveal-set with every card of an \<open>n\<close>-entry result in it.\<close>

definition fullReveal :: "nat \<Rightarrow> nat set" where
  "fullReveal n = {0 ..< n}"

section \<open>Sample data\<close>

text \<open>Concrete values for the examples below. \<open>sampleStringify\<close> and the two parsers
  stand in for the built-ins there: the first writes the identifiers only, between
  brackets; the parsers
  know a few texts (one of the expected shape, and \<^verbatim>\<open>{}\<close> and \<^verbatim>\<open>null\<close>, which parse
  to values of another shape) and throw on every other.\<close>

definition sampleAnalysis :: AnalysisResponse where
  "sampleAnalysis =
     \<lparr>mistakeDiagnosis = ''sign lost when moving a term'',
      coreConcept = ''quadratic equations'',
      stepByStepSolution = [''collect terms'', ''factorise'', ''read off the roots''],
      practiceQuestion =
        \<lparr>question = ''Solve x^2 = 4.'', answer = ''x = 2 or x = -2'',
         explanation = ''Both square roots count.''\<rparr>\<rparr>"

definition sampleResponse :: "AnalysisResponse unvalidated" where
  "sampleResponse = Shaped sampleAnalysis"

definition sampleCall :: AnalysisCall where
  "sampleCall = \<lparr>call_text = ''x^2 - 1 = 0'', call_subject = MATH, call_image = None\<rparr>"

definition sampleItem :: "string \<Rightarrow> string \<Rightarrow> HistoryItem" where
  "sampleItem ident problem =
     \<lparr>item_id = ident, item_timestamp = 1730631600000, item_subject = PHYSICS,
      originalProblem = problem, originalImage = None, item_result = sampleResponse\<rparr>"

definition sampleStringify :: "HistoryItem list \<Rightarrow> string" where
  "sampleStringify items = ''['' @ concat (map (\<lambda>item. item_id item @ '';'') items) @ '']''"

definition sampleParseHistory :: "string \<Rightarrow> error + HistoryItem list unvalidated" where
  "sampleParseHistory text =
     (if text = ''[]'' then Inr (Shaped [])
      else if text = ''{}'' then Inr (Unshaped (JObject []))
      else if text = ''null'' then Inr (Unshaped JNull)
      else Inl SyntaxError)"

definition sampleParseAnalysis :: "string \<Rightarrow> error + AnalysisResponse unvalidated" where
  "sampleParseAnalysis text =
     (if text = ''ok'' then Inr sampleResponse
      else if text = ''{}'' then Inr (Unshaped (JObject []))
      else if text = ''null'' then Inr (Unshaped JNull)
      else Inl SyntaxError)"

definition sampleWord :: VocabularyItem where
  "sampleWord =
     \<lparr>word = ''tide'', pronunciation = ''/taId/'', meaning = ''rise and fall of the sea'',
      example = ''The tide is coming in.''\<rparr>"

definition sampleVocabulary :: "nat \<Rightarrow> VocabularyResponse" where
  "sampleVocabulary n = \<lparr>topic = ''the sea'', words = replicate n sampleWord\<rparr>"

text \<open>Sample states, each reached by a run from a freshly mounted application whose
  storage slot is absent and writable.\<close>

definition freshApp :: app where
  "freshApp = mountWith sampleStringify True [] None"

definition requestingVocabulary :: app where
  "requestingVocabulary =
     run sampleStringify [TabClick VOCABULARY, TopicChange ''travel'', VocabSubmitClick] freshApp"

definition staleRevealTrace :: "event list" where
  "staleRevealTrace =
     [TabClick VOCABULARY, TopicChange ''the sea'', VocabSubmitClick, TopicKeyDown ''Enter'',
      VocabSettled 0 (Inr (sampleVocabulary 8)), CardClick 7,
      VocabSettled 0 (Inr (sampleVocabulary 5)),
      CardClick 0, CardClick 1, CardClick 2, CardClick 3]"

definition staleReveal :: app where
  "staleReveal = run sampleStringify staleRevealTrace freshApp"






definition sixCards :: app where
  "sixCards =
     run sampleStringify
       [TabClick VOCABULARY, TopicChange ''the sea'', VocabSubmitClick,
        VocabSettled 0 (Inr (sampleVocabulary 6))]
       freshApp"

definition answered :: app where
  "answered =
     run sampleStringify
       [InputChange ''x^2 - 1 = 0'', SubmitClick,
        AnalysisSettled 0 (Inr sampleResponse) 1730631600000 1730631600001 True]
       freshApp"

definition resubmitted :: app where
  "resubmitted = run sampleStringify [SubmitClick] answered"

definition lateFailure :: app where
  "lateFailure =
     run sampleStringify
       [TabClick HISTORY, HistoryItemClick 0,
        AnalysisSettled 0 (Inl (ApiError ''offline'')) 1730631660000 1730631660000 True]
       resubmitted"

section \<open>Unfolding the model\<close>

lemmas model_defs = mountWith_def initialState_def saveHistoryEffect_def asState_def
  truthy_def truthy_opt_def submitDisabled_def vocabSubmitDisabled_def
  callHandleSubmit_def callHandleVocabSubmit_def
  handleSubmit_start_def handleSubmit_settle_def newItem_def
  handleVocabSubmit_start_def handleVocabSubmit_settle_def
  toggleWordReveal_def toggleAllWords_def
  loadHistoryItem_def deleteHistoryItem_def clearHistory_def dropAt_def

section \<open>Decimal numerals are injective\<close>

declare digits.simps [simp del]

lemma digit_char_inj: "a < 10 \<Longrightarrow> b < 10 \<Longrightarrow> digit_char a = digit_char b \<Longrightarrow> a = b"
  unfolding digit_char_def by (subst (asm) nth_eq_iff_index_eq) simp_all

lemma digit_char_not_minus: "d < 10 \<Longrightarrow> digit_char d \<noteq> CHR ''-''"
proof -
  assume "d < 10"
  then have "digit_char d \<in> set ''0123456789''"
    unfolding digit_char_def by (intro nth_mem) simp
  then show ?thesis by auto
qed

lemma digits_nonempty: "digits n \<noteq> []"
  by (subst digits.simps) simp

lemma digits_long: "10 \<le> n \<Longrightarrow> 2 \<le> length (digits n)"
  using digits_nonempty [of "n div 10"]
  by (subst digits.simps) (simp add: Suc_le_eq)

lemma digits_inj: "digits n = digits m \<Longrightarrow> n = m"
proof (induction n arbitrary: m rule: digits.induct)
  case (1 n)
  show ?case
  proof (cases "n < 10")
    case small: True
    show ?thesis
    proof (cases "m < 10")
      case True
      with small "1.prems" show ?thesis
        by (simp add: digits.simps [of n] digits.simps [of m] digit_char_inj)
    next
      case False
      then have "2 \<le> length (digits m)" by (simp add: digits_long)
      moreover have "length (digits n) = 1" using small by (simp add: digits.simps [of n])
      ultimately show ?thesis using "1.prems" by simp
    qed
  next
    case big: False
    show ?thesis
    proof (cases "m < 10")
      case True
      then have "length (digits m) = 1" by (simp add: digits.simps [of m])
      moreover have "2 \<le> length (digits n)" using big by (simp add: digits_long)
      ultimately show ?thesis using "1.prems" by simp
    next
      case False
      with big "1.prems" have e: "digits (n div 10) = digits (m div 10)"
        and d: "digit_char (n mod 10) = digit_char (m mod 10)"
        by (simp_all add: digits.simps [of n] digits.simps [of m])
      from e big have "n div 10 = m div 10" by (rule "1.IH" [rotated])
      moreover from d have "n mod 10 = m mod 10" by (simp add: digit_char_inj)
      ultimately show ?thesis by (metis div_mult_mod_eq)
    qed
  qed
qed

lemma digits_no_minus: "CHR ''-'' \<notin> set (digits n)"
proof (induction n rule: digits.induct)
  case (1 n)
  show ?case
  proof (cases "n < 10")
    case True
    then show ?thesis using digit_char_not_minus [of n] by (simp add: digits.simps [of n])
  next
    case False
    then show ?thesis using 1 digit_char_not_minus [of "n mod 10"]
      by (simp add: digits.simps [of n])
  qed
qed

lemma toString_inj: "toString a = toString b \<Longrightarrow> a = b"
proof -
  assume e: "toString a = toString b"
  have hd_pos: "\<And>n. hd (digits n) \<noteq> CHR ''-''"
    using digits_no_minus digits_nonempty by (metis hd_in_set)
  show "a = b"
  proof (cases "a < 0"; cases "b < 0")
    assume "a < 0" "b < 0"
    with e have "nat (- a) = nat (- b)" by (simp add: toString_def digits_inj)
    with \<open>a < 0\<close> \<open>b < 0\<close> show ?thesis by simp
  next
    assume "a < 0" "\<not> b < 0"
    with e have "hd (digits (nat b)) = CHR ''-''" by (simp add: toString_def) (metis list.sel(1))
    with hd_pos show ?thesis by blast
  next
    assume "\<not> a < 0" "b < 0"
    with e have "hd (digits (nat a)) = CHR ''-''" by (simp add: toString_def)
    with hd_pos show ?thesis by blast
  next
    assume "\<not> a < 0" "\<not> b < 0"
    with e have "nat a = nat b" by (simp add: toString_def digits_inj)
    with \<open>\<not> a < 0\<close> \<open>\<not> b < 0\<close> show ?thesis by simp
  qed
qed

section \<open>The history list\<close>

lemma history_appendAll:
  "history (appendAll xs s) = rev (map created xs) @ history s"
  by (induction xs s rule: appendAll.induct) (simp_all add: handleSubmit_settle_def)

text \<open>
  Claim C1. A successful completion puts its new record in front of the history list and
  keeps every record that was there. So after any sequence of completions the list is the
  created records in reverse order of creation (the last one first), followed by the old
  list; its length grows by one per completion, whatever the records are: nothing is
  deduplicated.
\<close>

theorem append_prepends_newest_first:
  "history (handleSubmit_settle c (Inr data) t1 t2 s) = newItem c data t1 t2 # history s
   \<and> history (appendAll xs s) = rev (map created xs) @ history s
   \<and> length (history (appendAll xs s)) = length xs + length (history s)"
  by (simp add: history_appendAll handleSubmit_settle_def)

lemma filter_removeFirst:
  "distinct (map item_id xs) \<Longrightarrow> filter (\<lambda>x. item_id x \<noteq> i) xs = removeFirst_spec i xs"
proof (induction xs)
  case Nil
  then show ?case by simp
next
  case (Cons x xs)
  show ?case
  proof (cases "item_id x = i")
    case True
    with Cons.prems have "i \<notin> item_id ` set xs" by auto
    then have "filter (\<lambda>x. item_id x \<noteq> i) xs = xs" by (auto simp: filter_id_conv)
    with True show ?thesis by simp
  next
    case False
    with Cons show ?thesis by simp
  qed
qed

text \<open>
  Claim C3, as amended. A confirmed \<^verbatim>\<open>deleteHistoryItem\<close> keeps exactly the records whose
  identifier differs from the given one: it deletes every record with that identifier.
  That is the deletion of the first such record, as the specification words it, when the
  identifiers in the list are pairwise distinct. When no record has the identifier the
  state is unchanged, and deleting a second time changes nothing more.
\<close>

theorem delete_removes_every_match:
  "history (deleteHistoryItem True i s) = filter (\<lambda>x. item_id x \<noteq> i) (history s)
   \<and> (distinct (map item_id (history s)) \<longrightarrow>
        history (deleteHistoryItem True i s) = removeFirst_spec i (history s))
   \<and> (i \<notin> item_id ` set (history s) \<longrightarrow> deleteHistoryItem True i s = s)
   \<and> deleteHistoryItem True i (deleteHistoryItem True i s) = deleteHistoryItem True i s"
proof -
  have "i \<notin> item_id ` set (history s) \<Longrightarrow> filter (\<lambda>x. item_id x \<noteq> i) (history s) = history s"
    by (auto simp: filter_id_conv)
  then show ?thesis
    by (simp add: deleteHistoryItem_def filter_removeFirst)
qed

text \<open>The theorem at a list of two records with identifiers 1 and 2: deleting 1 leaves the
  second record, as deleting the first match does, and deleting 3 leaves the state as it
  is.\<close>

theorem delete_removes_every_match_witness:
  "distinct (map item_id [sampleItem ''1'' ''a'', sampleItem ''2'' ''b''])
   \<and> ''3'' \<notin> item_id ` set [sampleItem ''1'' ''a'', sampleItem ''2'' ''b'']
   \<and> history (deleteHistoryItem True ''1''
        (initialState [sampleItem ''1'' ''a'', sampleItem ''2'' ''b''] None))
      = removeFirst_spec ''1'' [sampleItem ''1'' ''a'', sampleItem ''2'' ''b'']
   \<and> history (deleteHistoryItem True ''1''
        (initialState [sampleItem ''1'' ''a'', sampleItem ''2'' ''b''] None))
      = [sampleItem ''2'' ''b'']
   \<and> deleteHistoryItem True ''3''
        (initialState [sampleItem ''1'' ''a'', sampleItem ''2'' ''b''] None)
      = initialState [sampleItem ''1'' ''a'', sampleItem ''2'' ''b''] None"
  using delete_removes_every_match
    [of "''1''" "initialState [sampleItem ''1'' ''a'', sampleItem ''2'' ''b''] None"]
    delete_removes_every_match
    [of "''3''" "initialState [sampleItem ''1'' ''a'', sampleItem ''2'' ''b''] None"]
  by (simp add: initialState_def sampleItem_def)

text \<open>
  Claim C3 as stated fails where two records share an identifier: deleting that identifier
  removes both, while deleting the first match would leave the second.
\<close>

theorem delete_first_only_counterexample:
  "history (deleteHistoryItem True ''1''
     (initialState [sampleItem ''1'' ''a'', sampleItem ''1'' ''b''] None))
   \<noteq> removeFirst_spec ''1'' [sampleItem ''1'' ''a'', sampleItem ''1'' ''b'']"
  by (simp add: deleteHistoryItem_def initialState_def sampleItem_def)

section \<open>Identifiers\<close>

lemma item_id_created: "item_id (created x) = toString (idReading x)"
  by (cases x) (simp add: newItem_def)

lemma distinct_created_ids:
  "distinct (map idReading xs) \<Longrightarrow> distinct (map (item_id \<circ> created) xs)"
proof (induction xs)
  case Nil
  then show ?case by simp
next
  case (Cons x xs)
  have "item_id (created x) \<notin> (item_id \<circ> created) ` set xs"
  proof
    assume "item_id (created x) \<in> (item_id \<circ> created) ` set xs"
    then obtain y where y: "y \<in> set xs" and "item_id (created x) = item_id (created y)"
      by auto
    then have "idReading x = idReading y"
      by (simp add: item_id_created toString_inj)
    with y Cons.prems show False by force
  qed
  with Cons show ?case by simp
qed

text \<open>
  Claim C4, as amended. The identifier of a record is the decimal numeral of the clock
  reading taken when its analysis completes. If the readings of a sequence of completions
  are pairwise distinct, the identifiers already in the list are pairwise distinct, and no
  reading's numeral is among them, then the identifiers in the resulting list are pairwise
  distinct.
\<close>

theorem distinct_readings_give_distinct_ids:
  assumes "distinct (map idReading xs)"
    and "distinct (map item_id (history s))"
    and "\<forall>x \<in> set xs. toString (idReading x) \<notin> item_id ` set (history s)"
  shows "distinct (map item_id (history (appendAll xs s)))"
proof -
  have "distinct (map (item_id \<circ> created) xs)"
    using assms(1) by (rule distinct_created_ids)
  moreover have "(item_id \<circ> created) ` set xs \<inter> item_id ` set (history s) = {}"
    using assms(3) by (auto simp: item_id_created)
  moreover have "map item_id (history (appendAll xs s))
      = rev (map (item_id \<circ> created) xs) @ map item_id (history s)"
    by (simp add: history_appendAll rev_map)
  ultimately show ?thesis
    using assms(2) by simp
qed

text \<open>The theorem at two completions with readings 1000 and 1001, on a list that holds one
  record with identifier 999.\<close>

theorem distinct_readings_give_distinct_ids_witness:
  "distinct (map idReading [(sampleCall, sampleResponse, 1000, 1000), (sampleCall, sampleResponse, 1001, 1001)])
   \<and> distinct (map item_id (history (initialState [sampleItem ''999'' ''a''] None)))
   \<and> distinct (map item_id (history (appendAll
         [(sampleCall, sampleResponse, 1000, 1000), (sampleCall, sampleResponse, 1001, 1001)]
         (initialState [sampleItem ''999'' ''a''] None))))"
  using distinct_readings_give_distinct_ids
    [of "[(sampleCall, sampleResponse, 1000, 1000), (sampleCall, sampleResponse, 1001, 1001)]"
        "initialState [sampleItem ''999'' ''a''] None"]
  by (simp add: initialState_def sampleItem_def toString_def digits.simps digit_char_def)

text \<open>
  Claim C4 as stated fails when two analyses complete at the same clock reading: both
  records get the same identifier.
\<close>

theorem same_reading_same_id_counterexample:
  "\<not> distinct (map item_id (history (appendAll
       [(sampleCall, sampleResponse, 1000, 1000), (sampleCall, sampleResponse, 1000, 1001)]
       (initialState [] None))))"
  by (simp add: handleSubmit_settle_def newItem_def)

section \<open>Submitting an analysis\<close>

text \<open>
  Claim C5. When the question text is empty and no image is selected, \<^verbatim>\<open>handleSubmit\<close>
  returns at its guard: no call is started and the state is left exactly as it was,
  whatever state that is. The same holds for a click on the submit button, which is
  disabled then.
\<close>

theorem empty_submission_rejected:
  "\<not> truthy (inputText s) \<Longrightarrow> \<not> truthy_opt (selectedImage s) \<Longrightarrow>
   handleSubmit_start s = None
   \<and> handleSubmit JSON_parse reply t1 t2 s = s
   \<and> callHandleSubmit s = s
   \<and> dispatch js SubmitClick s = s"
  by (simp add: handleSubmit_start_def handleSubmit_def callHandleSubmit_def submitDisabled_def)

text \<open>The theorem at the state of a freshly mounted application.\<close>

theorem empty_submission_rejected_witness:
  "\<not> truthy (inputText (initialState [] None))
   \<and> \<not> truthy_opt (selectedImage (initialState [] None))
   \<and> handleSubmit sampleParseAnalysis (Inr (Some ''ok'')) 5 6 (initialState [] None)
       = initialState [] None
   \<and> dispatch sampleStringify SubmitClick (initialState [] None) = initialState [] None"
  using empty_submission_rejected
    [of "initialState [] None" sampleParseAnalysis "Inr (Some ''ok'')" 5 6 sampleStringify]
  by (simp add: initialState_def truthy_def truthy_opt_def)

section \<open>Loading the history\<close>

text \<open>
  Claim C7, as amended. When reading the slot throws, or \<^verbatim>\<open>JSON.parse\<close> throws on the
  stored text, the initializer returns the empty list and the application mounts with an
  empty history; the same when the slot is absent. Nothing is raised in any case. A stored
  text that parses is returned as parsed, with no check of its shape: what the application
  mounts with is then whatever value the text denotes.
\<close>

theorem load_falls_back_on_exception:
  "loadHistory JSON_parse (Inl e) = Shaped []
   \<and> loadHistory JSON_parse (Inr None) = Shaped []
   \<and> (JSON_parse saved = Inl e \<longrightarrow>
        loadHistory JSON_parse (Inr (Some saved)) = Shaped []
        \<and> mount js JSON_parse True (Some saved) written
            = Shaped (mountWith js written [] (Some saved)))
   \<and> mount js JSON_parse False slot written = Shaped (mountWith js written [] slot)
   \<and> history (mountWith js written [] slot) = []
   \<and> (truthy saved \<and> JSON_parse saved = Inr parsed \<longrightarrow>
        loadHistory JSON_parse (Inr (Some saved)) = parsed)"
  by (simp add: loadHistory_def mount_def mountWith_def initialState_def saveHistoryEffect_def)

text \<open>The theorem at a stored text the sample parser throws on, and at the stored text of
  the empty list.\<close>

theorem load_falls_back_on_exception_witness:
  "sampleParseHistory ''[{broken'' = Inl SyntaxError
   \<and> loadHistory sampleParseHistory (Inr (Some ''[{broken'')) = Shaped []
   \<and> mount sampleStringify sampleParseHistory True (Some ''[{broken'') True
       = Shaped (mountWith sampleStringify True [] (Some ''[{broken''))
   \<and> truthy ''[]''
   \<and> sampleParseHistory ''[]'' = Inr (Shaped [])
   \<and> loadHistory sampleParseHistory (Inr (Some ''[]'')) = Shaped []"
  using load_falls_back_on_exception
      [of sampleParseHistory SyntaxError "''[{broken''" sampleStringify True None "Shaped []"]
    load_falls_back_on_exception
      [of sampleParseHistory SyntaxError "''[]''" sampleStringify True None "Shaped []"]
  by (simp add: sampleParseHistory_def truthy_def)

text \<open>
  Claim C7 as stated fails for corrupt data that still parses: with the text \<^verbatim>\<open>{}\<close> in
  the slot nothing throws, and the value loaded as the history is the empty object, not the
  empty list; the application mounts with it.
\<close>

theorem parseable_corrupt_history_counterexample:
  "loadHistory sampleParseHistory (Inr (Some ''{}'')) = Unshaped (JObject [])
   \<and> loadHistory sampleParseHistory (Inr (Some ''{}'')) \<noteq> Shaped []
   \<and> mount sampleStringify sampleParseHistory True (Some ''{}'') True = Unshaped (JObject [])"
  by (simp add: loadHistory_def mount_def sampleParseHistory_def truthy_def)

section \<open>Failed and accepted requests\<close>




lemma dispatch_requesting_clean:
  assumes "status s = LOADING \<longrightarrow> result s = None \<and> errorMsg s = None"
  shows "status (dispatch js ev s) = LOADING \<longrightarrow>
           result (dispatch js ev s) = None \<and> errorMsg (dispatch js ev s) = None"
  using assms
  by (cases ev) (auto simp add: model_defs Let_def split: option.splits sum.splits)

lemma run_requesting_clean:
  "status s = LOADING \<longrightarrow> result s = None \<and> errorMsg s = None \<Longrightarrow>
   status (run js evs s) = LOADING \<longrightarrow>
     result (run js evs s) = None \<and> errorMsg (run js evs s) = None"
proof (induction evs arbitrary: s)
  case Nil
  then show ?case by simp
next
  case (Cons ev evs)
  from Cons.prems have "status (dispatch js ev s) = LOADING \<longrightarrow>
      result (dispatch js ev s) = None \<and> errorMsg (dispatch js ev s) = None"
    by (rule dispatch_requesting_clean)
  then show ?case using Cons.IH by simp
qed

lemma mounted_requesting_clean:
  "status (run js evs (mountWith js written items slot)) = LOADING \<longrightarrow>
     result (run js evs (mountWith js written items slot)) = None
     \<and> errorMsg (run js evs (mountWith js written items slot)) = None"
  by (rule run_requesting_clean) (simp add: mountWith_def initialState_def saveHistoryEffect_def)

text \<open>
  Claim C10, as amended. A submission with a non-empty text or an image passes the guard
  and enters the requesting state with the result and the error message cleared. The
  failure branch sets the status and the message and leaves the result as it is at that
  moment. So a failure that arrives while the session is still requesting ends in the
  failed state with no result, whatever was shown before the submission: that is the case
  when nothing happens during the wait, and in every state a mounted application reaches,
  by any run of events, in which the session is requesting.
\<close>

theorem accepted_submission_clears_result:
  assumes "truthy (inputText s) \<or> truthy_opt (selectedImage s)"
  shows "(\<exists>s1 c. handleSubmit_start s = Some (s1, c)
           \<and> status s1 = LOADING \<and> result s1 = None \<and> errorMsg s1 = None
           \<and> status (handleSubmit_settle c (Inl e) t1 t2 s1) = ERROR
           \<and> result (handleSubmit_settle c (Inl e) t1 t2 s1) = None)
         \<and> (isl (analyzeProblem JSON_parse reply) \<longrightarrow>
               status (handleSubmit JSON_parse reply t1 t2 s) = ERROR
               \<and> result (handleSubmit JSON_parse reply t1 t2 s) = None)
         \<and> result (handleSubmit_settle c' (Inl e) t1 t2 u) = result u
         \<and> (status (run js evs (mountWith js written items slot)) = LOADING \<longrightarrow>
               result (run js evs (mountWith js written items slot)) = None
               \<and> result (handleSubmit_settle c' (Inl e) t1 t2
                     (run js evs (mountWith js written items slot))) = None)"
proof (intro conjI)
  show "\<exists>s1 c. handleSubmit_start s = Some (s1, c)
           \<and> status s1 = LOADING \<and> result s1 = None \<and> errorMsg s1 = None
           \<and> status (handleSubmit_settle c (Inl e) t1 t2 s1) = ERROR
           \<and> result (handleSubmit_settle c (Inl e) t1 t2 s1) = None"
    using assms by (auto simp add: handleSubmit_start_def handleSubmit_settle_def)
  show "isl (analyzeProblem JSON_parse reply) \<longrightarrow>
           status (handleSubmit JSON_parse reply t1 t2 s) = ERROR
           \<and> result (handleSubmit JSON_parse reply t1 t2 s) = None"
    using assms
    by (cases "analyzeProblem JSON_parse reply")
       (auto simp add: handleSubmit_def handleSubmit_start_def handleSubmit_settle_def)
  show "result (handleSubmit_settle c' (Inl e) t1 t2 u) = result u"
    by (simp add: handleSubmit_settle_def)
  show "status (run js evs (mountWith js written items slot)) = LOADING \<longrightarrow>
           result (run js evs (mountWith js written items slot)) = None
           \<and> result (handleSubmit_settle c' (Inl e) t1 t2
                 (run js evs (mountWith js written items slot))) = None"
    using mounted_requesting_clean [of js evs written items slot]
    by (simp add: handleSubmit_settle_def)
qed

text \<open>The theorem at a state that shows the result of an earlier successful request: a new
  submission that fails ends without a result.\<close>

theorem accepted_submission_clears_result_witness:
  "truthy (inputText answered)
   \<and> status answered = SUCCESS
   \<and> result answered = Some sampleResponse
   \<and> isl (analyzeProblem sampleParseAnalysis (Inl (ApiError ''offline'')))
   \<and> status (handleSubmit sampleParseAnalysis (Inl (ApiError ''offline'')) 5 6 answered) = ERROR
   \<and> result (handleSubmit sampleParseAnalysis (Inl (ApiError ''offline'')) 5 6 answered) = None"
proof -
  have a: "truthy (inputText answered)"
    and b: "status answered = SUCCESS"
    and c: "result answered = Some sampleResponse"
    by (simp_all add: answered_def freshApp_def sampleStringify_def sampleResponse_def
        model_defs toString_def digits.simps digit_char_def)
  have d: "isl (analyzeProblem sampleParseAnalysis (Inl (ApiError ''offline'')))"
    by (simp add: analyzeProblem_def)
  from a have "truthy (inputText answered) \<or> truthy_opt (selectedImage answered)" ..
  from accepted_submission_clears_result [OF this, of _ 5 6 sampleParseAnalysis "Inl (ApiError ''offline'')"] d
  have "status (handleSubmit sampleParseAnalysis (Inl (ApiError ''offline'')) 5 6 answered) = ERROR
      \<and> result (handleSubmit sampleParseAnalysis (Inl (ApiError ''offline'')) 5 6 answered) = None"
    by blast
  with a b c d show ?thesis by simp
qed

text \<open>
  Claim C10 as stated fails when a history record is loaded during the wait. The second
  submission is accepted and clears the result; while its call is outstanding the user
  opens the history tab and loads the record of the first request, which nothing
  disables; the call then rejects, and the session is in the failed state holding the
  result of the earlier successful request.
\<close>

theorem late_failure_keeps_loaded_result_counterexample:
  "result answered = Some sampleResponse
   \<and> status resubmitted = LOADING
   \<and> result resubmitted = None
   \<and> analysisCalls resubmitted
       = [\<lparr>call_text = ''x^2 - 1 = 0'', call_subject = MATH, call_image = None\<rparr>]
   \<and> status lateFailure = ERROR
   \<and> result lateFailure = Some sampleResponse"
  by (simp add: lateFailure_def resubmitted_def answered_def freshApp_def sampleStringify_def
      sampleResponse_def model_defs toString_def digits.simps digit_char_def)

section \<open>Persistence\<close>




section \<open>The vocabulary session\<close>

text \<open>
  Claim C6, evaluated where the code departs from it. In a vocabulary session that is
  requesting, with one call waiting, the submit button is disabled and a click on it
  changes nothing; but the Enter key in the topic input calls \<^verbatim>\<open>handleVocabSubmit\<close>
  without looking at the status, and a second call is started.
\<close>

theorem enter_key_starts_second_request:
  "vocabStatus requestingVocabulary = LOADING
   \<and> vocabCalls requestingVocabulary = [''travel'']
   \<and> dispatch sampleStringify VocabSubmitClick requestingVocabulary = requestingVocabulary
   \<and> vocabCalls (dispatch sampleStringify (TopicKeyDown ''Enter'') requestingVocabulary)
       = [''travel'', ''travel'']"
  by (simp add: requestingVocabulary_def freshApp_def sampleStringify_def model_defs)

lemma full_iff_card:
  assumes "A \<subseteq> fullReveal n"
  shows "(card A = n) = (A = fullReveal n)"
proof
  assume "card A = n"
  then have "card A = card (fullReveal n)" by (simp add: fullReveal_def)
  with assms show "A = fullReveal n"
    by (intro card_subset_eq) (simp_all add: fullReveal_def)
next
  assume "A = fullReveal n"
  then show "card A = n" by (simp add: fullReveal_def)
qed

text \<open>
  Claim C9, as amended. For a vocabulary result with \<open>n\<close> entries and a reveal-set all of
  whose indices are below \<open>n\<close>, \<^verbatim>\<open>toggleAllWords\<close> empties the reveal-set when it is
  the full set \<open>{0, ..., n - 1}\<close> and makes it that full set otherwise, and changes
  nothing else. (The code decides by comparing the size of the set with \<open>n\<close>.)
\<close>

theorem toggle_all_within_range:
  assumes "vocabResult s = Some v"
    and "revealedWords s \<subseteq> fullReveal (length (words v))"
  shows "toggleAllWords s =
           s\<lparr>revealedWords :=
               (if revealedWords s = fullReveal (length (words v)) then {}
                else fullReveal (length (words v)))\<rparr>"
  using assms full_iff_card [OF assms(2)]
  by (simp add: toggleAllWords_def) (simp add: fullReveal_def)

text \<open>The theorem at a six-entry result with nothing revealed: all six are revealed, and a
  second call reveals none.\<close>

theorem toggle_all_within_range_witness:
  "vocabResult sixCards = Some (sampleVocabulary 6)
   \<and> revealedWords sixCards = {}
   \<and> revealedWords sixCards \<subseteq> fullReveal (length (words (sampleVocabulary 6)))
   \<and> revealedWords (toggleAllWords sixCards) = fullReveal 6
   \<and> revealedWords (toggleAllWords (toggleAllWords sixCards)) = {}"
proof -
  have v: "vocabResult sixCards = Some (sampleVocabulary 6)"
    and r: "revealedWords sixCards = {}"
    by (simp_all add: sixCards_def sampleVocabulary_def freshApp_def sampleStringify_def
        model_defs)
  have n: "length (words (sampleVocabulary 6)) = 6"
    by (simp add: sampleVocabulary_def)
  have ne: "{} \<noteq> fullReveal 6"
    by (auto simp add: fullReveal_def)
  have one: "toggleAllWords sixCards = sixCards\<lparr>revealedWords := fullReveal 6\<rparr>"
    using toggle_all_within_range [of sixCards "sampleVocabulary 6"] v r n ne by simp
  have "vocabResult (toggleAllWords sixCards) = Some (sampleVocabulary 6)"
    and "revealedWords (toggleAllWords sixCards) \<subseteq> fullReveal (length (words (sampleVocabulary 6)))"
    using one v n by simp_all
  then have two: "revealedWords (toggleAllWords (toggleAllWords sixCards)) = {}"
    using toggle_all_within_range [of "toggleAllWords sixCards" "sampleVocabulary 6"] one n
    by simp
  from v r n one two show ?thesis by simp
qed

text \<open>
  Claim C9 as stated fails for a reveal-set that has \<open>n\<close> members without being the full
  set. Such a state is reached when two vocabulary requests overlap: an index revealed in
  the first, eight-entry result stays in the set when the second, five-entry result
  arrives; with four of the five cards revealed as well, the set has five members, and
  \<^verbatim>\<open>toggleAllWords\<close> empties it although the fifth card is not revealed.
\<close>

theorem stale_index_toggle_counterexample:
  "vocabResult staleReveal = Some (sampleVocabulary 5)
   \<and> revealedWords staleReveal = {0, 1, 2, 3, 7}
   \<and> revealedWords staleReveal \<noteq> fullReveal 5
   \<and> revealedWords (toggleAllWords staleReveal) = {}
   \<and> revealedWords (toggleAllWords staleReveal) \<noteq> fullReveal 5"
proof -
  have shown: "revealedWords staleReveal = {3, 2, 1, 0, 7}"
    and res: "vocabResult staleReveal = Some (sampleVocabulary 5)"
    by (simp_all add: staleReveal_def staleRevealTrace_def sampleVocabulary_def
        freshApp_def sampleStringify_def model_defs)
  have same: "{3, 2, 1, 0, 7} = {0, 1, 2, 3, 7::nat}"
    by auto
  have "(7::nat) \<notin> fullReveal 5"
    by (simp add: fullReveal_def)
  then have notfull: "{0, 1, 2, 3, 7::nat} \<noteq> fullReveal 5"
    by blast
  have "(4::nat) \<in> fullReveal 5"
    by (simp add: fullReveal_def)
  then have nonempty: "{} \<noteq> fullReveal 5"
    by blast
  have "revealedWords (toggleAllWords staleReveal) = {}"
    by (simp add: toggleAllWords_def res shown sampleVocabulary_def)
  with shown res same notfull nonempty show ?thesis
    by simp
qed

end
